theory Spec2Isabelle
  imports Main "HOL-Library.Word"
begin

section \<open>Values, errors and collaborators\<close>

text \<open>
  The policy bridge of beskar's router: the two custom functions \<^verbatim>\<open>oci.blob_digest\<close>
  and \<^verbatim>\<open>request.body\<close> registered with the rule evaluator, the buffer pool and the
  replayable body \<^verbatim>\<open>bufPoolCloser\<close>. The evaluator, the registry, the JSON decoder
  and the reference parser are collaborators outside the repository; they enter the
  model as the fields of the record \<open>collab\<close>.

  Go strings and byte slices are sequences of bytes. A Go \<^verbatim>\<open>string\<close> is a HOL
  \<open>string\<close> (a list of 8-bit characters), a \<^verbatim>\<open>[]byte\<close> is a list of 8-bit words.
\<close>

type_synonym byte = "8 word"
type_synonym bytes = "byte list"

text \<open>
  Go error values. \<^verbatim>\<open>fmt.Errorf\<close> without \<^verbatim>\<open>%w\<close> and \<^verbatim>\<open>errors.New\<close> give an
  \<open>ErrorString\<close>; \<^verbatim>\<open>fmt.Errorf\<close> with \<^verbatim>\<open>%w\<close> gives a \<open>WrapError\<close> holding the text
  printed before the wrapped error and the wrapped error itself.
  \<open>ErrTagUnknown\<close> is \<^verbatim>\<open>distribution.ErrTagUnknown{Tag}\<close>; the last three are the
  sentinels of package \<^verbatim>\<open>io\<close>.
\<close>

datatype error =
    ErrorString string
  | WrapError string error
  | ErrTagUnknown string
  | EOF
  | ErrUnexpectedEOF
  | ErrShortBuffer

text \<open>
  \<^verbatim>\<open>errors.As(err, &tagUnknown)\<close> with \<^verbatim>\<open>tagUnknown\<close> of type
  \<^verbatim>\<open>distribution.ErrTagUnknown\<close>: walks the chain of wrapped errors and reports
  whether one of them is of that type.
\<close>

fun errors_As_ErrTagUnknown :: "error \<Rightarrow> bool" where
  "errors_As_ErrTagUnknown (ErrTagUnknown t) = True"
| "errors_As_ErrTagUnknown (WrapError m e) = errors_As_ErrTagUnknown e"
| "errors_As_ErrTagUnknown _ = False"

text \<open>The values of the rule evaluator (\<^verbatim>\<open>ast.Value\<close>), as far as the bridge sees them.\<close>

datatype ast_value =
    AstNull
  | AstBoolean bool
  | AstNumber int
  | AstString string
  | AstArray "ast_value list"

text \<open>
  \<^verbatim>\<open>reference.Named\<close>, the handles of the registry (\<^verbatim>\<open>distribution.Repository\<close>,
  \<^verbatim>\<open>distribution.ManifestService\<close>, \<^verbatim>\<open>distribution.Manifest\<close>) and the parts of
  \<^verbatim>\<open>distribution.Descriptor\<close> and \<^verbatim>\<open>v1.Manifest\<close> that the code reads.
\<close>

datatype named = Named string

fun named_String :: "named \<Rightarrow> string" where
  "named_String (Named s) = s"

type_synonym repository = nat
type_synonym manifest_service = nat
type_synonym registry_manifest = nat

record descriptor =
  desc_Digest :: string

record hash =
  Algorithm :: string
  Hex :: string

record layer =
  layer_MediaType :: string
  layer_Digest :: hash

record v1_manifest =
  Layers :: "layer list"

text \<open>
  The collaborators. Each returns \<open>Inl\<close> of an error or \<open>Inr\<close> of its result.
  \<open>ValueFromReader\<close> is \<^verbatim>\<open>ast.ValueFromReader\<close> on the bytes its reader holds; its
  second component is the number of bytes the decoder took from the reader.
  \<open>Pool_pick\<close> is the choice \<^verbatim>\<open>sync.Pool.Get\<close> makes among the pooled items:
  the index of the item it hands out, or \<open>None\<close> when it ignores the pool and calls
  \<^verbatim>\<open>New\<close> (the contract of \<^verbatim>\<open>sync.Pool\<close> allows both).
\<close>

record collab =
  WithName :: "string \<Rightarrow> error + named"
  Repository :: "named \<Rightarrow> error + repository"
  Tags_Get :: "repository \<Rightarrow> string \<Rightarrow> error + descriptor"
  Manifests :: "repository \<Rightarrow> error + manifest_service"
  Manifests_Get :: "manifest_service \<Rightarrow> string \<Rightarrow> error + registry_manifest"
  Payload :: "registry_manifest \<Rightarrow> error + bytes"
  json_Unmarshal :: "bytes \<Rightarrow> error + v1_manifest"
  ValueFromReader :: "bytes \<Rightarrow> (error + ast_value) \<times> nat"
  Pool_pick :: "nat list \<Rightarrow> nat option"

text \<open>The calls made to the collaborators, in the order they are made.\<close>

datatype call =
    CallWithName string
  | CallRepository named
  | CallTagsGet repository string
  | CallManifests repository
  | CallManifestsGet manifest_service string
  | CallPayload registry_manifest

section \<open>Streams, buffers and request bodies\<close>

text \<open>
  An \<^verbatim>\<open>io.Reader\<close> over a finite stream: \<open>More d s\<close> hands out the bytes \<open>d\<close> with a
  nil error and goes on as \<open>s\<close>; \<open>Last d e\<close> hands out \<open>d\<close> together with the error
  \<open>e\<close> (\<^verbatim>\<open>io.EOF\<close> at a regular end) and returns \<open>(0, e)\<close> from then on. A chunk
  longer than the slice passed to \<^verbatim>\<open>Read\<close> is handed out in pieces.
\<close>

datatype stream = More bytes stream | Last bytes error

fun stream_content :: "stream \<Rightarrow> bytes" where
  "stream_content (More d s) = d @ stream_content s"
| "stream_content (Last d e) = d"

fun stream_size :: "stream \<Rightarrow> nat" where
  "stream_size (More d s) = Suc (length d + stream_size s)"
| "stream_size (Last d e) = length d"

fun stream_Read :: "stream \<Rightarrow> nat \<Rightarrow> bytes \<times> error option \<times> stream" where
  "stream_Read (More d s) k =
     (if length d \<le> k then (d, None, s) else (take k d, None, More (drop k d) s))"
| "stream_Read (Last d e) k =
     (if length d \<le> k then (d, Some e, Last [] e) else (take k d, None, Last (drop k d) e))"

text \<open>
  Buffers live in a heap and are named by their address, since the pool, the
  replayable body and its \<^verbatim>\<open>bytes.Reader\<close> hold the same \<^verbatim>\<open>*[]byte\<close>.
  A \<^verbatim>\<open>bytes.Reader\<close> over \<^verbatim>\<open>body[:n]\<close> is the address of the buffer, the length
  \<open>n\<close> of the slice and the read index.
\<close>

type_synonym buf_ref = nat

record bytes_Reader =
  rd_buf :: buf_ref
  rd_len :: nat
  rd_i :: nat

text \<open>
  \<^verbatim>\<open>http.Request.Body\<close>: nil, the sentinel \<^verbatim>\<open>http.NoBody\<close>, the stream the
  transport put there, or a \<^verbatim>\<open>bufPoolCloser{io.Reader, buf}\<close>.
\<close>

datatype body =
    BodyNil
  | NoBody
  | OrigBody stream
  | BufPoolCloser bytes_Reader buf_ref

text \<open>
  \<^verbatim>\<open>funcContext\<close>: the request (its body is the one field the bridge touches) and
  the error slot. The registry handle is the record \<open>collab\<close>.
\<close>

record funcContext =
  req_Body :: body
  builtinErr :: "error option"

text \<open>
  \<^verbatim>\<open>rego.BuiltinContext\<close>: the location printed in front of a recorded error.
  What \<^verbatim>\<open>bctx.Context.Value(&funcContextKey).(*funcContext)\<close> finds, and the
  cancel flag behind \<^verbatim>\<open>bctx.Cancel\<close>, change during a call and are fields of the state.
\<close>

record bctx =
  Location :: string

record world =
  Cancel :: bool
  fctx :: "funcContext option"
  bufferPool :: "buf_ref list"
  heap :: "buf_ref \<Rightarrow> bytes"
  next_ref :: buf_ref
  calls :: "call list"

definition log_call :: "call \<Rightarrow> world \<Rightarrow> world" where
  "log_call c st = st\<lparr>calls := calls st @ [c]\<rparr>"

section \<open>The blob-digest resolver\<close>

text \<open>
  \<^verbatim>\<open>strings.LastIndexByte(s, c)\<close>: the loop
  \<^verbatim>\<open>for i := len(s) - 1; i >= 0; i-- { if s[i] == c { return i } }; return -1\<close>.
  The second argument of \<open>LastIndexByte_from\<close> is \<open>i + 1\<close>.
\<close>

fun LastIndexByte_from :: "string \<Rightarrow> char \<Rightarrow> nat \<Rightarrow> int" where
  "LastIndexByte_from s c 0 = - 1"
| "LastIndexByte_from s c (Suc i) =
     (if s ! i = c then int i else LastIndexByte_from s c i)"

definition LastIndexByte :: "string \<Rightarrow> char \<Rightarrow> int" where
  "LastIndexByte s c = LastIndexByte_from s c (length s)"

text \<open>The loop over \<^verbatim>\<open>manifest.Layers\<close> and the final \<^verbatim>\<open>ast.StringTerm("")\<close>.\<close>

fun scanLayers :: "string \<Rightarrow> layer list \<Rightarrow> ast_value" where
  "scanLayers mediaType [] = AstString []"
| "scanLayers mediaType (l # ls) =
     (if layer_MediaType l \<noteq> mediaType then scanLayers mediaType ls
      else AstString (Hex (layer_Digest l)))"

text \<open>
  The body of \<^verbatim>\<open>ociBlobDigestBuiltin\<close> below its \<^verbatim>\<open>defer\<close>: every \<^verbatim>\<open>return nil, err\<close>
  is an \<open>Inl\<close>, every collaborator call is logged before its result is inspected.
\<close>

definition ociBlobDigest_body ::
  "collab \<Rightarrow> ast_value \<Rightarrow> ast_value \<Rightarrow> world \<Rightarrow> (error + ast_value) \<times> world" where
  "ociBlobDigest_body env a b st =
    (case a of
       AstString astRef \<Rightarrow>
        (case b of
           AstString astMediaType \<Rightarrow>
            (let ref = astRef;
                 tagIndex = LastIndexByte ref CHR '':''
             in if tagIndex < 0 then (Inl (ErrorString ''reference without tag''), st)
                else
                 (let name = take (nat tagIndex) ref;
                      tag = drop (nat (tagIndex + 1)) ref;
                      st1 = log_call (CallWithName name) st
                  in case WithName env name of
                       Inl err \<Rightarrow> (Inl (ErrorString ''bad reference name''), st1)
                     | Inr namedRef \<Rightarrow>
                        (let st2 = log_call (CallRepository namedRef) st1
                         in case Repository env namedRef of
                              Inl err \<Rightarrow>
                               (Inl (WrapError (''while getting repository ''
                                       @ named_String namedRef @ '': '') err), st2)
                            | Inr repo \<Rightarrow>
                               (let st3 = log_call (CallTagsGet repo tag) st2
                                in case Tags_Get env repo tag of
                                     Inl err \<Rightarrow>
                                      (if errors_As_ErrTagUnknown err
                                       then (Inr (AstString []), st3)
                                       else (Inl (WrapError (''while getting tag ''
                                                    @ tag @ '': '') err), st3))
                                   | Inr tagDesc \<Rightarrow>
                                      (let st4 = log_call (CallManifests repo) st3
                                       in case Manifests env repo of
                                            Inl err \<Rightarrow>
                                             (Inl (WrapError
                                                (''while getting manifest service for ''
                                                  @ named_String namedRef @ '': '') err), st4)
                                          | Inr manifestService \<Rightarrow>
                                             (let st5 = log_call (CallManifestsGet
                                                   manifestService (desc_Digest tagDesc)) st4
                                              in case Manifests_Get env manifestService
                                                        (desc_Digest tagDesc) of
                                                   Inl err \<Rightarrow>
                                                    (Inl (WrapError
                                                       (''while getting manifest for ''
                                                         @ named_String namedRef @ '': '')
                                                       err), st5)
                                                 | Inr registryManifest \<Rightarrow>
                                                    (let st6 = log_call
                                                          (CallPayload registryManifest) st5
                                                     in case Payload env registryManifest of
                                                          Inl err \<Rightarrow> (Inl err, st6)
                                                        | Inr manifestPayload \<Rightarrow>
                                                           (case json_Unmarshal env
                                                                   manifestPayload of
                                                              Inl err \<Rightarrow> (Inl err, st6)
                                                            | Inr manifest \<Rightarrow>
                                                               (Inr (scanLayers astMediaType
                                                                  (Layers manifest)),
                                                                st6)))))))))
         | _ \<Rightarrow> (Inl (ErrorString ''oci layer mediatype is not a string''), st))
     | _ \<Rightarrow> (Inl (ErrorString ''oci reference is not a string''), st))"

text \<open>
  The deferred function of both builtins: when the body returned an error, store
  \<^verbatim>\<open>fmt.Errorf("%s builtin eval <name> error: %w", bctx.Location, errFn)\<close> in the
  slot of the context found on entry and cancel. \<open>who\<close> is the name of the builtin.
\<close>

definition deferred ::
  "string \<Rightarrow> bctx \<Rightarrow> (error + ast_value) \<times> world \<Rightarrow> (error + ast_value) \<times> world" where
  "deferred who bc r =
    (case r of
       (Inl errFn, st) \<Rightarrow>
         (Inl errFn,
          st\<lparr>fctx := map_option
                 (\<lambda>fc. fc\<lparr>builtinErr := Some (WrapError
                    (Location bc @ '' builtin eval '' @ who @ '' error: '') errFn)\<rparr>)
                 (fctx st),
             Cancel := True\<rparr>)
     | (Inr t, st) \<Rightarrow> (Inr t, st))"

definition ociBlobDigestBuiltin ::
  "collab \<Rightarrow> bctx \<Rightarrow> ast_value \<Rightarrow> ast_value \<Rightarrow> world \<Rightarrow> (error + ast_value) \<times> world" where
  "ociBlobDigestBuiltin env bc a b st =
    (case fctx st of
       None \<Rightarrow> (Inl (ErrorString ''bad context''), st\<lparr>Cancel := True\<rparr>)
     | Some fc \<Rightarrow> deferred ''oci.blob_digest'' bc (ociBlobDigest_body env a b st))"

section \<open>The buffer pool and the replayable body\<close>

text \<open>
  \<^verbatim>\<open>newBuffer\<close> allocates 8192 zero bytes and returns their address.
  \<^verbatim>\<open>bufferPool.Get()\<close> hands out a pooled address and removes it from the pool, or
  calls \<^verbatim>\<open>newBuffer\<close>; \<^verbatim>\<open>bufferPool.Put(p)\<close> adds the address \<open>p\<close> to the pool,
  once per call, also when it is there already.
\<close>

definition newBuffer :: "world \<Rightarrow> buf_ref \<times> world" where
  "newBuffer st =
     (next_ref st,
      st\<lparr>heap := (heap st)(next_ref st := replicate 8192 0), next_ref := Suc (next_ref st)\<rparr>)"

definition bufferPool_Get :: "collab \<Rightarrow> world \<Rightarrow> buf_ref \<times> world" where
  "bufferPool_Get env st =
     (case Pool_pick env (bufferPool st) of
        None \<Rightarrow> newBuffer st
      | Some i \<Rightarrow>
          if i < length (bufferPool st)
          then (bufferPool st ! i,
                st\<lparr>bufferPool := take i (bufferPool st) @ drop (Suc i) (bufferPool st)\<rparr>)
          else newBuffer st)"

definition bufferPool_Put :: "buf_ref \<Rightarrow> world \<Rightarrow> world" where
  "bufferPool_Put p st = st\<lparr>bufferPool := p # bufferPool st\<rparr>"

text \<open>\<^verbatim>\<open>bufPoolCloser.Close\<close>: puts \<^verbatim>\<open>bpc.buf\<close> into the pool and returns nil.\<close>

definition bufPoolCloser_Close :: "buf_ref \<Rightarrow> world \<Rightarrow> error option \<times> world" where
  "bufPoolCloser_Close buf st = (None, bufferPool_Put buf st)"

text \<open>
  \<^verbatim>\<open>bytes.Reader.Read(p)\<close> with \<open>k = len(p)\<close>: at the end of its slice
  \<^verbatim>\<open>(0, io.EOF)\<close>, otherwise \<^verbatim>\<open>n = copy(p, r.s[r.i:])\<close> and \<^verbatim>\<open>r.i += n\<close>.
\<close>

definition bytes_Reader_Read ::
  "(buf_ref \<Rightarrow> bytes) \<Rightarrow> bytes_Reader \<Rightarrow> nat \<Rightarrow> bytes \<times> error option \<times> bytes_Reader" where
  "bytes_Reader_Read h r k =
     (if rd_len r \<le> rd_i r then ([], Some EOF, r)
      else (take k (drop (rd_i r) (take (rd_len r) (h (rd_buf r)))),
            None,
            r\<lparr>rd_i := rd_i r + min k (rd_len r - rd_i r)\<rparr>))"

text \<open>
  \<^verbatim>\<open>Read\<close> on a request body. \<^verbatim>\<open>http.NoBody\<close> always returns \<^verbatim>\<open>(0, io.EOF)\<close>;
  a nil body is never read (the accessor tests for it first).
\<close>

fun body_Read :: "(buf_ref \<Rightarrow> bytes) \<Rightarrow> body \<Rightarrow> nat \<Rightarrow> bytes \<times> error option \<times> body" where
  "body_Read h BodyNil k = ([], Some EOF, BodyNil)"
| "body_Read h NoBody k = ([], Some EOF, NoBody)"
| "body_Read h (OrigBody s) k =
     (case stream_Read s k of (d, e, s') \<Rightarrow> (d, e, OrigBody s'))"
| "body_Read h (BufPoolCloser r buf) k =
     (case bytes_Reader_Read h r k of (d, e, r') \<Rightarrow> (d, e, BufPoolCloser r' buf))"

fun body_size :: "body \<Rightarrow> nat" where
  "body_size (OrigBody s) = stream_size s"
| "body_size (BufPoolCloser r buf) = rd_len r - rd_i r"
| "body_size _ = 0"

lemma stream_Read_decreases:
  "stream_Read s k = (d, None, s') \<Longrightarrow> 0 < k \<Longrightarrow> stream_size s' < stream_size s"
  by (cases s) (auto split: if_splits)

lemma body_Read_decreases:
  "body_Read h r k = (d, None, r') \<Longrightarrow> 0 < k \<Longrightarrow> body_size r' < body_size r"
  by (cases r)
     (auto simp: bytes_Reader_Read_def split: if_splits prod.splits
           dest: stream_Read_decreases)

text \<open>
  \<^verbatim>\<open>io.ReadAtLeast(r, buf, min)\<close> of the Go library:
  \<^verbatim>\<open>
  if len(buf) < min { return 0, ErrShortBuffer }
  for n < min && err == nil {
      var nn int
      nn, err = r.Read(buf[n:])
      n += nn
  }
  if n >= min { err = nil } else if n > 0 && err == EOF { err = ErrUnexpectedEOF }
  return
  \<close>
  \<open>buf\<close> is the buffer at address \<open>b\<close>; each \<^verbatim>\<open>Read\<close> writes into the heap, which the
  next \<^verbatim>\<open>Read\<close> sees. The test \<open>n < length (h b)\<close> of \<open>ReadAtLeast_loop\<close> holds
  whenever \<open>n < mn\<close> does, by the first line of \<^verbatim>\<open>ReadAtLeast\<close>; it makes the
  recursion total.
\<close>

function ReadAtLeast_loop ::
  "(buf_ref \<Rightarrow> bytes) \<Rightarrow> body \<Rightarrow> buf_ref \<Rightarrow> nat \<Rightarrow> nat
     \<Rightarrow> nat \<times> error option \<times> body \<times> (buf_ref \<Rightarrow> bytes)" where
  "ReadAtLeast_loop h r b mn n =
     (if n < mn \<and> n < length (h b) then
        (case body_Read h r (length (h b) - n) of
           (d, err, r') \<Rightarrow>
             (case err of
                None \<Rightarrow>
                  ReadAtLeast_loop (h(b := take n (h b) @ d @ drop (n + length d) (h b)))
                    r' b mn (n + length d)
              | Some e \<Rightarrow>
                  (n + length d, Some e, r',
                   h(b := take n (h b) @ d @ drop (n + length d) (h b)))))
      else (n, None, r, h))"
  by pat_completeness auto
termination
  by (relation "measure (\<lambda>(h, r, b, mn, n). body_size r)")
     (auto dest: body_Read_decreases [OF sym])

declare ReadAtLeast_loop.simps [simp del]

definition ReadAtLeast ::
  "(buf_ref \<Rightarrow> bytes) \<Rightarrow> body \<Rightarrow> buf_ref \<Rightarrow> nat
     \<Rightarrow> nat \<times> error option \<times> body \<times> (buf_ref \<Rightarrow> bytes)" where
  "ReadAtLeast h r b mn =
     (if length (h b) < mn then (0, Some ErrShortBuffer, r, h)
      else
        (case ReadAtLeast_loop h r b mn 0 of
           (n, err, r', h') \<Rightarrow>
             (if mn \<le> n then (n, None, r', h')
              else if 0 < n \<and> err = Some EOF then (n, Some ErrUnexpectedEOF, r', h')
              else (n, err, r', h'))))"

section \<open>The request-body accessor\<close>

text \<open>
  \<^verbatim>\<open>ast.InterfaceToValue(nil)\<close> of the evaluator's library: the null value and a nil
  error.
\<close>

definition InterfaceToValue_nil :: "ast_value \<times> error option" where
  "InterfaceToValue_nil = (AstNull, None)"

text \<open>
  The body of \<^verbatim>\<open>requestBodyBuiltin\<close> below its \<^verbatim>\<open>defer\<close>; \<open>fc\<close> is the context
  found on entry. Reading advances the body the request holds and fills the
  buffer; only the last branch assigns \<^verbatim>\<open>req.Body\<close>.
\<close>

definition requestBody_body ::
  "collab \<Rightarrow> funcContext \<Rightarrow> world \<Rightarrow> (error + ast_value) \<times> world" where
  "requestBody_body env fc st =
    (if req_Body fc \<noteq> BodyNil \<and> req_Body fc \<noteq> NoBody then
       (case bufferPool_Get env st of
          (buf, st1) \<Rightarrow>
            (case ReadAtLeast (heap st1) (req_Body fc) buf 1 of
               (n, err, body', h') \<Rightarrow>
                 (let st2 = st1\<lparr>heap := h', fctx := Some (fc\<lparr>req_Body := body'\<rparr>)\<rparr>
                  in case err of
                       Some e \<Rightarrow> (Inl (ErrorString ''empty body request''), st2)
                     | None \<Rightarrow>
                        (let bodyReader = \<lparr>rd_buf = buf, rd_len = n, rd_i = 0\<rparr>
                         in case ValueFromReader env (take n (h' buf)) of
                              (Inl e, used) \<Rightarrow> (Inl e, st2)
                            | (Inr v, used) \<Rightarrow>
                               (let bodyReader1 = bodyReader\<lparr>rd_i := min used n\<rparr>;
                                    bodyReader2 = bodyReader1\<lparr>rd_i := 0\<rparr>
                                in (Inr v,
                                    st2\<lparr>fctx := Some (fc\<lparr>req_Body :=
                                           BufPoolCloser bodyReader2 buf\<rparr>)\<rparr>))))))
     else
       (case InterfaceToValue_nil of
          (v, None) \<Rightarrow> (Inr v, st)
        | (v, Some e) \<Rightarrow> (Inl e, st)))"

definition requestBodyBuiltin ::
  "collab \<Rightarrow> bctx \<Rightarrow> world \<Rightarrow> (error + ast_value) \<times> world" where
  "requestBodyBuiltin env bc st =
    (case fctx st of
       None \<Rightarrow> (Inl (ErrorString ''bad context''), st\<lparr>Cancel := True\<rparr>)
     | Some fc \<Rightarrow> deferred ''request.body'' bc (requestBody_body env fc st))"

text \<open>
  What a later consumer reads from a body until its end (\<^verbatim>\<open>io.ReadAll\<close>): the rest
  of the stream, or the bytes of the slice from the read index on.
\<close>

fun body_ReadAll :: "(buf_ref \<Rightarrow> bytes) \<Rightarrow> body \<Rightarrow> bytes" where
  "body_ReadAll h BodyNil = []"
| "body_ReadAll h NoBody = []"
| "body_ReadAll h (OrigBody s) = stream_content s"
| "body_ReadAll h (BufPoolCloser r buf) = drop (rd_i r) (take (rd_len r) (h (rd_buf r)))"

text \<open>
  A stream whose whole content arrives in the first \<^verbatim>\<open>Read\<close> that returns any byte,
  and fits the \<open>k\<close> bytes of the buffer.
\<close>

fun captured :: "nat \<Rightarrow> stream \<Rightarrow> bool" where
  "captured k (More d s) =
     (if d = [] then captured k s else length d \<le> k \<and> stream_content s = [])"
| "captured k (Last d e) = (d \<noteq> [] \<and> length d \<le> k)"

section \<open>A concrete registry and concrete requests\<close>

text \<open>
  A registry with one repository per non-empty name, the tag \<open>v1\<close> whose manifest has
  three layers, a tag \<open>broken\<close> whose lookup fails, and no other tag; a decoder that
  accepts the two bytes \<open>{}\<close>; a pool that hands out its first item.
\<close>

definition example_layers :: "layer list" where
  "example_layers =
     [\<lparr>layer_MediaType = ''text/a'', layer_Digest = \<lparr>Algorithm = ''sha256'', Hex = ''aa''\<rparr>\<rparr>,
      \<lparr>layer_MediaType = ''text/b'', layer_Digest = \<lparr>Algorithm = ''sha256'', Hex = ''bb''\<rparr>\<rparr>,
      \<lparr>layer_MediaType = ''text/b'', layer_Digest = \<lparr>Algorithm = ''sha256'', Hex = ''cc''\<rparr>\<rparr>]"

definition example_collab :: collab where
  "example_collab =
     \<lparr>WithName = (\<lambda>s. if s = [] then Inl (ErrorString ''invalid reference format'')
                       else Inr (Named s)),
      Repository = (\<lambda>n. Inr 1),
      Tags_Get = (\<lambda>r t. if t = ''v1'' then Inr \<lparr>desc_Digest = ''sha256:11''\<rparr>
                         else if t = ''broken'' then Inl (ErrorString ''backend down'')
                         else Inl (ErrTagUnknown t)),
      Manifests = (\<lambda>r. Inr 2),
      Manifests_Get = (\<lambda>m d. Inr 3),
      Payload = (\<lambda>m. Inr [0x7B, 0x7D]),
      json_Unmarshal = (\<lambda>p. Inr \<lparr>Layers = example_layers\<rparr>),
      ValueFromReader = (\<lambda>p. if p = [0x7B, 0x7D] then (Inr (AstArray []), 2)
                              else (Inl (ErrorString ''invalid character''), length p)),
      Pool_pick = (\<lambda>p. if p = [] then None else Some 0)\<rparr>"

definition example_bctx :: bctx where
  "example_bctx = \<lparr>Location = ''policy.rego:3''\<rparr>"

definition example_world :: "body \<Rightarrow> world" where
  "example_world bd =
     \<lparr>Cancel = False, fctx = Some \<lparr>req_Body = bd, builtinErr = None\<rparr>,
      bufferPool = [], heap = (\<lambda>p. []), next_ref = 0, calls = []\<rparr>"

definition example_world_nocontext :: world where
  "example_world_nocontext =
     \<lparr>Cancel = False, fctx = None,
      bufferPool = [], heap = (\<lambda>p. []), next_ref = 0, calls = []\<rparr>"

section \<open>Facts about the parts\<close>

lemma LastIndexByte_from_none:
  "(\<forall>j<k. s ! j \<noteq> c) \<Longrightarrow> LastIndexByte_from s c k = - 1"
  by (induction k) auto

lemma LastIndexByte_from_last:
  "i < k \<Longrightarrow> s ! i = c \<Longrightarrow> (\<forall>j. i < j \<and> j < k \<longrightarrow> s ! j \<noteq> c)
     \<Longrightarrow> LastIndexByte_from s c k = int i"
proof (induction k)
  case 0
  then show ?case by simp
next
  case (Suc k)
  show ?case
  proof (cases "s ! k = c")
    case True
    with Suc.prems have "i = k"
      by (metis less_Suc_eq lessI)
    with True show ?thesis by simp
  next
    case False
    with Suc.prems have "i < k"
      by (metis less_Suc_eq)
    with Suc False show ?thesis by simp
  qed
qed

lemma LastIndexByte_absent: "c \<notin> set s \<Longrightarrow> LastIndexByte s c = - 1"
  unfolding LastIndexByte_def
  by (rule LastIndexByte_from_none) (metis nth_mem)

lemma LastIndexByte_split:
  assumes "c \<notin> set tag"
  shows "LastIndexByte (name @ c # tag) c = int (length name)"
  unfolding LastIndexByte_def
proof (rule LastIndexByte_from_last)
  show "length name < length (name @ c # tag)" by simp
  show "(name @ c # tag) ! length name = c" by simp
  show "\<forall>j. length name < j \<and> j < length (name @ c # tag) \<longrightarrow> (name @ c # tag) ! j \<noteq> c"
  proof (intro allI impI)
    fix j assume j: "length name < j \<and> j < length (name @ c # tag)"
    then have "(name @ c # tag) ! j = tag ! (j - Suc (length name))"
      by (simp add: nth_append nth_Cons')
    moreover from j have "j - Suc (length name) < length tag" by auto
    ultimately show "(name @ c # tag) ! j \<noteq> c"
      using assms by (metis nth_mem)
  qed
qed

lemma LastIndexByte_from_found:
  "LastIndexByte_from s c k = i \<Longrightarrow> 0 \<le> i
     \<Longrightarrow> nat i < k \<and> s ! nat i = c \<and> (\<forall>j. nat i < j \<and> j < k \<longrightarrow> s ! j \<noteq> c)"
proof (induction k)
  case 0
  then show ?case by simp
next
  case (Suc k)
  show ?case
  proof (cases "s ! k = c")
    case True
    with Suc.prems show ?thesis by auto
  next
    case False
    with Suc have "nat i < k \<and> s ! nat i = c \<and> (\<forall>j. nat i < j \<and> j < k \<longrightarrow> s ! j \<noteq> c)"
      by simp
    with False show ?thesis
      by (metis less_Suc_eq)
  qed
qed

lemma LastIndexByte_found:
  assumes "LastIndexByte s c = i" and "0 \<le> i"
  shows "s = take (nat i) s @ c # drop (nat (i + 1)) s \<and> c \<notin> set (drop (nat (i + 1)) s)"
proof -
  from assms have f: "nat i < length s" "s ! nat i = c"
    "\<forall>j. nat i < j \<and> j < length s \<longrightarrow> s ! j \<noteq> c"
    using LastIndexByte_from_found [of s c "length s" i] by (auto simp: LastIndexByte_def)
  from assms(2) have n: "nat (i + 1) = Suc (nat i)" by simp
  from f(1,2) have "s = take (nat i) s @ c # drop (Suc (nat i)) s"
    by (metis id_take_nth_drop)
  moreover have "c \<notin> set (drop (Suc (nat i)) s)"
  proof
    assume "c \<in> set (drop (Suc (nat i)) s)"
    then obtain m where m: "m < length (drop (Suc (nat i)) s)" "drop (Suc (nat i)) s ! m = c"
      by (metis in_set_conv_nth)
    then have "s ! (Suc (nat i) + m) = c" "Suc (nat i) + m < length s" by auto
    with f(3) show False by auto
  qed
  ultimately show ?thesis using n by simp
qed

lemma scanLayers_find:
  "scanLayers mt ls =
     AstString (case find (\<lambda>l. layer_MediaType l = mt) ls of
                  None \<Rightarrow> [] | Some l \<Rightarrow> Hex (layer_Digest l))"
  by (induction ls) auto

lemma ociBlobDigest_body_fctx:
  "fctx (snd (ociBlobDigest_body env a b st)) = fctx st"
  by (simp add: ociBlobDigest_body_def log_call_def Let_def
           split: ast_value.splits sum.splits)

lemma nat_int_Suc: "nat (int n + 1) = Suc n"
  by simp

section \<open>Properties of the blob-digest resolver\<close>

text \<open>
  Claim C7. For a reference string without any colon the resolver makes no call to a
  collaborator (no name check, no repository open, no tag lookup, no manifest fetch),
  whatever the rest of the input is; called with its context attached and a string as
  media type, it fails with the error \<^verbatim>\<open>reference without tag\<close>.
\<close>

theorem reference_without_colon_fails:
  assumes "CHR '':'' \<notin> set ref"
  shows "calls (snd (ociBlobDigestBuiltin env bc (AstString ref) b st)) = calls st
         \<and> (\<forall>fc mt. fctx st = Some fc \<and> b = AstString mt \<longrightarrow>
              fst (ociBlobDigestBuiltin env bc (AstString ref) b st)
                = Inl (ErrorString ''reference without tag''))"
  using LastIndexByte_absent [OF assms]
  by (auto simp: ociBlobDigestBuiltin_def ociBlobDigest_body_def deferred_def Let_def
           split: option.splits ast_value.splits)

text \<open>Claim C7 at the reference \<^verbatim>\<open>library/alpine\<close>.\<close>

theorem reference_without_colon_fails_witness:
  "CHR '':'' \<notin> set ''library/alpine''
   \<and> calls (snd (ociBlobDigestBuiltin example_collab example_bctx
         (AstString ''library/alpine'') (AstString ''text/b'') (example_world NoBody))) = []
   \<and> fst (ociBlobDigestBuiltin example_collab example_bctx
         (AstString ''library/alpine'') (AstString ''text/b'') (example_world NoBody))
       = Inl (ErrorString ''reference without tag'')"
proof -
  have h: "CHR '':'' \<notin> set ''library/alpine''" by simp
  show ?thesis
    using h reference_without_colon_fails [OF h, where env = example_collab and bc = example_bctx
        and b = "AstString ''text/b''" and st = "example_world NoBody"]
    by (simp add: example_world_def)
qed

text \<open>
  Claim C4. For a reference \<open>name:tag\<close> whose name holds a further colon and whose tag
  holds none, so that the reference has more than one colon and the one before the
  tag is the last, the index the resolver splits at is that of the last colon; the
  name check is called on \<open>name\<close>, and when the name is accepted and the repository
  opens, the tag looked up is \<open>tag\<close>.
\<close>

theorem split_at_last_colon:
  assumes "CHR '':'' \<in> set name" and "CHR '':'' \<notin> set tag" and "fctx st = Some fc"
  shows "LastIndexByte (name @ CHR '':'' # tag) CHR '':'' = int (length name)
         \<and> (\<exists>rest. calls (snd (ociBlobDigestBuiltin env bc
                (AstString (name @ CHR '':'' # tag)) (AstString mt) st))
              = calls st @ CallWithName name # rest
              \<and> (\<forall>nr repo. WithName env name = Inr nr \<and> Repository env nr = Inr repo
                    \<longrightarrow> (\<exists>rest'. rest = CallRepository nr # CallTagsGet repo tag # rest')))"
  using LastIndexByte_split [OF assms(2), of name] assms(3)
  by (auto simp: ociBlobDigestBuiltin_def ociBlobDigest_body_def deferred_def Let_def
        log_call_def nat_int_Suc split: sum.splits)

text \<open>Claim C4 at the reference \<^verbatim>\<open>localhost:5000/alpine:v1\<close>.\<close>

theorem split_at_last_colon_witness:
  "CHR '':'' \<in> set ''localhost:5000/alpine'' \<and> CHR '':'' \<notin> set ''v1''
   \<and> fctx (example_world NoBody) = Some \<lparr>req_Body = NoBody, builtinErr = None\<rparr>
   \<and> LastIndexByte ''localhost:5000/alpine:v1'' CHR '':'' = 21
   \<and> take 3 (calls (snd (ociBlobDigestBuiltin example_collab example_bctx
           (AstString ''localhost:5000/alpine:v1'') (AstString ''text/b'') (example_world NoBody))))
         = [CallWithName ''localhost:5000/alpine'', CallRepository (Named ''localhost:5000/alpine''),
            CallTagsGet 1 ''v1'']"
proof -
  have h1: "CHR '':'' \<in> set ''localhost:5000/alpine''" by simp
  have h2: "CHR '':'' \<notin> set ''v1''" by simp
  have h3: "fctx (example_world NoBody) = Some \<lparr>req_Body = NoBody, builtinErr = None\<rparr>"
    by (simp add: example_world_def)
  have e1: "WithName example_collab ''localhost:5000/alpine'' = Inr (Named ''localhost:5000/alpine'')"
    by (simp add: example_collab_def)
  have e2: "Repository example_collab (Named ''localhost:5000/alpine'') = Inr 1"
    by (simp add: example_collab_def)
  have c: "calls (example_world NoBody) = []" by (simp add: example_world_def)
  show ?thesis
    using h1 h2 h3 e1 e2 c
      split_at_last_colon [OF h1 h2 h3, where env = example_collab and bc = example_bctx
        and mt = "''text/b''"]
    by auto
qed

text \<open>
  Claim C5. When the tag lookup fails with an error in whose chain
  \<^verbatim>\<open>errors.As\<close> finds an \<^verbatim>\<open>ErrTagUnknown\<close>, the resolver returns the empty string,
  leaves the error slot as it was and does not cancel; on any other error of the tag
  lookup it returns the wrapped error, records it in the slot and cancels.
\<close>

theorem unknown_tag_is_not_an_error:
  assumes "CHR '':'' \<notin> set tag" and "fctx st = Some fc"
    and "WithName env name = Inr nr" and "Repository env nr = Inr repo"
    and "Tags_Get env repo tag = Inl err"
  shows "case ociBlobDigestBuiltin env bc (AstString (name @ CHR '':'' # tag)) (AstString mt) st of
           (r, st') \<Rightarrow>
             if errors_As_ErrTagUnknown err
             then r = Inr (AstString []) \<and> fctx st' = fctx st \<and> Cancel st' = Cancel st
             else r = Inl (WrapError (''while getting tag '' @ tag @ '': '') err)
                  \<and> Cancel st'
                  \<and> fctx st' = Some (fc\<lparr>builtinErr := Some (WrapError
                        (Location bc @ '' builtin eval oci.blob_digest error: '')
                        (WrapError (''while getting tag '' @ tag @ '': '') err))\<rparr>)"
  using LastIndexByte_split [OF assms(1), of name] assms(2-)
  by (simp add: ociBlobDigestBuiltin_def ociBlobDigest_body_def deferred_def Let_def
        log_call_def nat_int_Suc)

text \<open>Claim C5 at the reference \<^verbatim>\<open>alpine:v9\<close>, a tag the registry does not know.\<close>

theorem unknown_tag_is_not_an_error_witness:
  "CHR '':'' \<notin> set ''v9''
   \<and> fctx (example_world NoBody) = Some \<lparr>req_Body = NoBody, builtinErr = None\<rparr>
   \<and> WithName example_collab ''alpine'' = Inr (Named ''alpine'')
   \<and> Repository example_collab (Named ''alpine'') = Inr 1
   \<and> Tags_Get example_collab 1 ''v9'' = Inl (ErrTagUnknown ''v9'')
   \<and> errors_As_ErrTagUnknown (ErrTagUnknown ''v9'')
   \<and> fst (ociBlobDigestBuiltin example_collab example_bctx
          (AstString ''alpine:v9'') (AstString ''text/b'') (example_world NoBody))
       = Inr (AstString [])
   \<and> fctx (snd (ociBlobDigestBuiltin example_collab example_bctx
          (AstString ''alpine:v9'') (AstString ''text/b'') (example_world NoBody)))
       = Some \<lparr>req_Body = NoBody, builtinErr = None\<rparr>
   \<and> Cancel (snd (ociBlobDigestBuiltin example_collab example_bctx
          (AstString ''alpine:v9'') (AstString ''text/b'') (example_world NoBody))) = False"
proof -
  have h1: "CHR '':'' \<notin> set ''v9''" by simp
  have h2: "fctx (example_world NoBody) = Some \<lparr>req_Body = NoBody, builtinErr = None\<rparr>"
    by (simp add: example_world_def)
  have h3: "WithName example_collab ''alpine'' = Inr (Named ''alpine'')"
    by (simp add: example_collab_def)
  have h4: "Repository example_collab (Named ''alpine'') = Inr 1"
    by (simp add: example_collab_def)
  have h5: "Tags_Get example_collab 1 ''v9'' = Inl (ErrTagUnknown ''v9'')"
    by (simp add: example_collab_def)
  have c: "Cancel (example_world NoBody) = False" by (simp add: example_world_def)
  show ?thesis
    using h1 h2 h3 h4 h5 c
      unknown_tag_is_not_an_error [OF h1 h2 h3 h4 h5, where bc = example_bctx and mt = "''text/b''"]
    by (simp add: split_beta)
qed

text \<open>
  Claim C6. When every step up to the decoding of the manifest succeeds, the resolver
  returns the \<open>Hex\<close> field of the digest of the first layer, in the order of the list,
  whose media type equals the requested one, and the empty string when no layer has
  it; in both cases the call succeeds, the error slot is untouched and nothing is
  cancelled.
\<close>

theorem first_matching_layer:
  assumes "CHR '':'' \<notin> set tag" and "fctx st = Some fc"
    and "WithName env name = Inr nr" and "Repository env nr = Inr repo"
    and "Tags_Get env repo tag = Inr tagDesc" and "Manifests env repo = Inr ms"
    and "Manifests_Get env ms (desc_Digest tagDesc) = Inr rm"
    and "Payload env rm = Inr payload" and "json_Unmarshal env payload = Inr manifest"
  shows "case ociBlobDigestBuiltin env bc (AstString (name @ CHR '':'' # tag)) (AstString mt) st of
           (r, st') \<Rightarrow>
             r = Inr (AstString
                   (case find (\<lambda>l. layer_MediaType l = mt) (Layers manifest) of
                      None \<Rightarrow> [] | Some l \<Rightarrow> Hex (layer_Digest l)))
             \<and> fctx st' = fctx st \<and> Cancel st' = Cancel st"
  using LastIndexByte_split [OF assms(1), of name] assms(2-)
  by (simp add: ociBlobDigestBuiltin_def ociBlobDigest_body_def deferred_def Let_def
        log_call_def nat_int_Suc scanLayers_find)

text \<open>
  Claim C6 at the reference \<^verbatim>\<open>alpine:v1\<close>: of the two layers of type \<^verbatim>\<open>text/b\<close> the
  first one is returned, and no layer has the type \<^verbatim>\<open>text/c\<close>.
\<close>

theorem first_matching_layer_witness:
  "CHR '':'' \<notin> set ''v1''
   \<and> fctx (example_world NoBody) = Some \<lparr>req_Body = NoBody, builtinErr = None\<rparr>
   \<and> WithName example_collab ''alpine'' = Inr (Named ''alpine'')
   \<and> Repository example_collab (Named ''alpine'') = Inr 1
   \<and> Tags_Get example_collab 1 ''v1'' = Inr \<lparr>desc_Digest = ''sha256:11''\<rparr>
   \<and> Manifests example_collab 1 = Inr 2
   \<and> Manifests_Get example_collab 2 ''sha256:11'' = Inr 3
   \<and> Payload example_collab 3 = Inr [0x7B, 0x7D]
   \<and> json_Unmarshal example_collab [0x7B, 0x7D] = Inr \<lparr>Layers = example_layers\<rparr>
   \<and> fst (ociBlobDigestBuiltin example_collab example_bctx
          (AstString ''alpine:v1'') (AstString ''text/b'') (example_world NoBody))
       = Inr (AstString ''bb'')
   \<and> fst (ociBlobDigestBuiltin example_collab example_bctx
          (AstString ''alpine:v1'') (AstString ''text/c'') (example_world NoBody))
       = Inr (AstString [])"
proof -
  have h1: "CHR '':'' \<notin> set ''v1''" by simp
  have h2: "fctx (example_world NoBody) = Some \<lparr>req_Body = NoBody, builtinErr = None\<rparr>"
    by (simp add: example_world_def)
  have h3: "WithName example_collab ''alpine'' = Inr (Named ''alpine'')"
    by (simp add: example_collab_def)
  have h4: "Repository example_collab (Named ''alpine'') = Inr 1"
    by (simp add: example_collab_def)
  have h5: "Tags_Get example_collab 1 ''v1'' = Inr \<lparr>desc_Digest = ''sha256:11''\<rparr>"
    by (simp add: example_collab_def)
  have h6: "Manifests example_collab 1 = Inr 2"
    by (simp add: example_collab_def)
  have h7: "Manifests_Get example_collab 2 (desc_Digest \<lparr>desc_Digest = ''sha256:11''\<rparr>) = Inr 3"
    by (simp add: example_collab_def)
  have h8: "Payload example_collab 3 = Inr [0x7B, 0x7D]"
    by (simp add: example_collab_def)
  have h9: "json_Unmarshal example_collab [0x7B, 0x7D] = Inr \<lparr>Layers = example_layers\<rparr>"
    by (simp add: example_collab_def)
  show ?thesis
    using h1 h2 h3 h4 h5 h6 h7 h8 h9
      first_matching_layer [OF h1 h2 h3 h4 h5 h6 h7 h8 h9, where bc = example_bctx and mt = "''text/b''"]
      first_matching_layer [OF h1 h2 h3 h4 h5 h6 h7 h8 h9, where bc = example_bctx and mt = "''text/c''"]
    by (simp add: split_beta example_layers_def)
qed

text \<open>
  Claim C9 fails as stated: for the reference \<^verbatim>\<open>alpine:\<close>, whose tag is empty, the
  resolver does not fail at parsing. It checks the name, opens the repository and
  looks up the empty tag; the registry here reports it unknown and the call succeeds
  with the empty string.
\<close>

theorem empty_tag_counterexample:
  "fst (ociBlobDigestBuiltin example_collab example_bctx
          (AstString ''alpine:'') (AstString ''text/b'') (example_world NoBody))
     = Inr (AstString [])
   \<and> calls (snd (ociBlobDigestBuiltin example_collab example_bctx
          (AstString ''alpine:'') (AstString ''text/b'') (example_world NoBody)))
     = [CallWithName ''alpine'', CallRepository (Named ''alpine''), CallTagsGet 1 []]"
proof -
  have "LastIndexByte ''alpine:'' CHR '':'' = 6"
    using LastIndexByte_split [of "CHR '':''" "[]" "''alpine''"] by simp
  then show ?thesis
    by (simp add: ociBlobDigestBuiltin_def ociBlobDigest_body_def deferred_def Let_def
          log_call_def example_collab_def example_world_def)
qed

text \<open>
  Claim C9 as amended. A reference on which the resolver succeeds has a colon, and
  the part before its last colon passes the name check; the tag is not checked. For
  a reference whose last colon is followed by an empty tag, with a name that is
  accepted and a repository that opens, the resolver goes on to the tag lookup with
  the empty tag.
\<close>

theorem accepted_references:
  assumes "fctx st = Some fc"
  shows "(\<forall>v. fst (ociBlobDigestBuiltin env bc (AstString ref) b st) = Inr v \<longrightarrow>
            (\<exists>name tag nr. ref = name @ CHR '':'' # tag \<and> CHR '':'' \<notin> set tag
                \<and> WithName env name = Inr nr))
         \<and> (\<forall>name nr repo.
              ref = name @ '':'' \<and> WithName env name = Inr nr \<and> Repository env nr = Inr repo
              \<longrightarrow> (\<exists>rest. calls (snd (ociBlobDigestBuiltin env bc (AstString ref)
                              (AstString mt) st))
                     = calls st @ CallWithName name # CallRepository nr
                         # CallTagsGet repo [] # rest))"
proof (intro conjI allI impI)
  fix v
  assume ok: "fst (ociBlobDigestBuiltin env bc (AstString ref) b st) = Inr v"
  define i where "i = LastIndexByte ref CHR '':''"
  from ok assms have "0 \<le> i \<and> (\<exists>nr. WithName env (take (nat i) ref) = Inr nr)"
    by (auto simp: i_def ociBlobDigestBuiltin_def ociBlobDigest_body_def deferred_def Let_def
          split: ast_value.splits sum.splits if_splits)
  then obtain nr where i: "0 \<le> i" and nr: "WithName env (take (nat i) ref) = Inr nr"
    by blast
  from LastIndexByte_found [OF i_def [symmetric] i]
  have "ref = take (nat i) ref @ CHR '':'' # drop (nat (i + 1)) ref"
    and "CHR '':'' \<notin> set (drop (nat (i + 1)) ref)"
    by simp_all
  with nr show "\<exists>name tag nr. ref = name @ CHR '':'' # tag \<and> CHR '':'' \<notin> set tag
                  \<and> WithName env name = Inr nr"
    by blast
next
  fix name nr repo
  assume h: "ref = name @ '':'' \<and> WithName env name = Inr nr \<and> Repository env nr = Inr repo"
  have "LastIndexByte (name @ CHR '':'' # []) CHR '':'' = int (length name)"
    by (rule LastIndexByte_split) simp
  with h assms
  show "\<exists>rest. calls (snd (ociBlobDigestBuiltin env bc (AstString ref) (AstString mt) st))
          = calls st @ CallWithName name # CallRepository nr # CallTagsGet repo [] # rest"
    by (auto simp: ociBlobDigestBuiltin_def ociBlobDigest_body_def deferred_def Let_def
          log_call_def nat_int_Suc split: sum.splits)
qed

text \<open>Claim C9 as amended, at the reference \<^verbatim>\<open>alpine:\<close>.\<close>

theorem accepted_references_witness:
  "fctx (example_world NoBody) = Some \<lparr>req_Body = NoBody, builtinErr = None\<rparr>
   \<and> WithName example_collab ''alpine'' = Inr (Named ''alpine'')
   \<and> Repository example_collab (Named ''alpine'') = Inr 1
   \<and> take 3 (calls (snd (ociBlobDigestBuiltin example_collab example_bctx
          (AstString ''alpine:'') (AstString ''text/b'') (example_world NoBody))))
       = [CallWithName ''alpine'', CallRepository (Named ''alpine''), CallTagsGet 1 []]"
proof -
  have h: "fctx (example_world NoBody) = Some \<lparr>req_Body = NoBody, builtinErr = None\<rparr>"
    by (simp add: example_world_def)
  have e1: "WithName example_collab ''alpine'' = Inr (Named ''alpine'')"
    by (simp add: example_collab_def)
  have e2: "Repository example_collab (Named ''alpine'') = Inr 1"
    by (simp add: example_collab_def)
  have c: "calls (example_world NoBody) = []" by (simp add: example_world_def)
  from accepted_references [OF h, where env = example_collab and bc = example_bctx
      and ref = "''alpine:''" and mt = "''text/b''"] e1 e2
  obtain rest where
    "calls (snd (ociBlobDigestBuiltin example_collab example_bctx
        (AstString ''alpine:'') (AstString ''text/b'') (example_world NoBody)))
      = calls (example_world NoBody) @ CallWithName ''alpine'' # CallRepository (Named ''alpine'')
          # CallTagsGet 1 [] # rest"
    by auto
  with h e1 e2 c show ?thesis by simp
qed

section \<open>Facts about reading and the pool\<close>

lemma stream_Read_content:
  "stream_Read s k = (d, e, s') \<Longrightarrow> stream_content s = d @ stream_content s'"
  by (cases s) (auto split: if_splits)

lemma ReadAtLeast_loop_OrigBody:
  "ReadAtLeast_loop h r b mn n = (n', e, r', h') \<Longrightarrow> r = OrigBody s
     \<Longrightarrow> \<exists>s' rd. r' = OrigBody s' \<and> stream_content s = rd @ stream_content s'"
proof (induction h r b mn n arbitrary: s rule: ReadAtLeast_loop.induct)
  case (1 h r b mn n)
  show ?case
  proof (cases "n < mn \<and> n < length (h b)")
    case False
    then have "ReadAtLeast_loop h r b mn n = (n, None, r, h)"
      by (subst ReadAtLeast_loop.simps) auto
    with "1.prems" show ?thesis by auto
  next
    case True
    obtain d err s1 where rd: "stream_Read s (length (h b) - n) = (d, err, s1)"
      by (metis prod_cases3)
    then have c: "stream_content s = d @ stream_content s1"
      by (rule stream_Read_content)
    from rd "1.prems"(2) have br: "body_Read h r (length (h b) - n) = (d, err, OrigBody s1)"
      by simp
    show ?thesis
    proof (cases err)
      case None
      with True br "1.prems"(1)
      have "ReadAtLeast_loop (h(b := take n (h b) @ d @ drop (n + length d) (h b)))
              (OrigBody s1) b mn (n + length d) = (n', e, r', h')"
        by (simp add: ReadAtLeast_loop.simps [of h r])
      from "1.IH" [OF True br [symmetric] refl None this refl]
      obtain s' rd' where "r' = OrigBody s'" "stream_content s1 = rd' @ stream_content s'"
        by blast
      with c show ?thesis by auto
    next
      case (Some e')
      with True br "1.prems"(1) have "r' = OrigBody s1"
        by (simp add: ReadAtLeast_loop.simps [of h r])
      with c show ?thesis by blast
    qed
  qed
qed

lemma ReadAtLeast_OrigBody:
  assumes "ReadAtLeast h (OrigBody s) b mn = (n', e, r', h')"
  shows "\<exists>s' rd. r' = OrigBody s' \<and> stream_content s = rd @ stream_content s'"
proof (cases "length (h b) < mn")
  case True
  with assms have "r' = OrigBody s" by (simp add: ReadAtLeast_def)
  then show ?thesis by auto
next
  case False
  obtain n1 e1 r1 h1 where l: "ReadAtLeast_loop h (OrigBody s) b mn 0 = (n1, e1, r1, h1)"
    by (metis prod_cases4)
  with False assms have "r' = r1"
    by (auto simp: ReadAtLeast_def split: if_splits)
  with ReadAtLeast_loop_OrigBody [OF l refl] show ?thesis by simp
qed

lemma ReadAtLeast_loop_no_bytes:
  "stream_content s = [] \<Longrightarrow> 0 < length (h b)
     \<Longrightarrow> \<exists>e s'. ReadAtLeast_loop h (OrigBody s) b 1 0 = (0, Some e, OrigBody s', h)"
proof (induction s)
  case (More d s)
  then show ?case
    by (subst ReadAtLeast_loop.simps) simp
next
  case (Last d e)
  then show ?case
    by (subst ReadAtLeast_loop.simps) simp
qed

lemma ReadAtLeast_no_bytes:
  assumes "stream_content s = []"
  shows "\<exists>e s'. ReadAtLeast h (OrigBody s) b 1 = (0, Some e, OrigBody s', h)"
proof (cases "length (h b) < 1")
  case True
  then show ?thesis by (simp add: ReadAtLeast_def)
next
  case False
  then have "0 < length (h b)" by simp
  from ReadAtLeast_loop_no_bytes [where h = h and b = b, OF assms this]
  obtain e s' where "ReadAtLeast_loop h (OrigBody s) b 1 0 = (0, Some e, OrigBody s', h)"
    by blast
  with False show ?thesis by (simp add: ReadAtLeast_def)
qed

lemma nonempty_le_pos: "d \<noteq> [] \<Longrightarrow> length d \<le> k \<Longrightarrow> 0 < k"
  by (cases d) auto

lemma captured_pos: "captured k s \<Longrightarrow> 0 < k"
  by (induction s) (auto split: if_splits dest: nonempty_le_pos)

lemma ReadAtLeast_loop_captured:
  "captured (length (h b)) s
     \<Longrightarrow> \<exists>e s'. ReadAtLeast_loop h (OrigBody s) b 1 0
           = (length (stream_content s), e, OrigBody s',
              h(b := stream_content s @ drop (length (stream_content s)) (h b)))"
proof (induction s)
  case (More d s)
  show ?case
  proof (cases "d = []")
    case True
    with More have c: "captured (length (h b)) s" by simp
    then have "0 < length (h b)" by (rule captured_pos)
    with True have "ReadAtLeast_loop h (OrigBody (More d s)) b 1 0
                      = ReadAtLeast_loop h (OrigBody s) b 1 0"
      by (subst ReadAtLeast_loop.simps) simp
    with More.IH [OF c] True show ?thesis by simp
  next
    case False
    with More.prems have "length d \<le> length (h b)" "stream_content s = []" "0 < length (h b)"
      by (auto dest: nonempty_le_pos)
    with False show ?thesis
      by (subst ReadAtLeast_loop.simps, simp, subst ReadAtLeast_loop.simps, simp)
  qed
next
  case (Last d e)
  then have "0 < length (h b)" by (auto dest: nonempty_le_pos)
  with Last show ?case
    by (subst ReadAtLeast_loop.simps) simp
qed

lemma ReadAtLeast_captured:
  assumes "captured (length (h b)) s"
  shows "\<exists>s'. ReadAtLeast h (OrigBody s) b 1
           = (length (stream_content s), None, OrigBody s',
              h(b := stream_content s @ drop (length (stream_content s)) (h b)))"
    and "stream_content s \<noteq> []"
proof -
  show ne: "stream_content s \<noteq> []"
    using assms by (induction s) (auto split: if_splits)
  from captured_pos [OF assms] have "\<not> length (h b) < 1" by simp
  moreover from ReadAtLeast_loop_captured [where h = h and b = b, OF assms]
  obtain e s' where "ReadAtLeast_loop h (OrigBody s) b 1 0
           = (length (stream_content s), e, OrigBody s',
              h(b := stream_content s @ drop (length (stream_content s)) (h b)))"
    by blast
  ultimately show "\<exists>s'. ReadAtLeast h (OrigBody s) b 1
           = (length (stream_content s), None, OrigBody s',
              h(b := stream_content s @ drop (length (stream_content s)) (h b)))"
    using ne by (simp add: ReadAtLeast_def Suc_le_eq)
qed

lemma bufferPool_Get_length:
  "bufferPool_Get env st = (buf, st1) \<Longrightarrow> \<forall>p\<in>set (bufferPool st). length (heap st p) = 8192
     \<Longrightarrow> length (heap st1 buf) = 8192"
  by (auto simp: bufferPool_Get_def newBuffer_def split: option.splits if_splits)

section \<open>Facts about the request-body accessor\<close>

lemma requestBody_body_fctx:
  "fctx st = Some fc \<Longrightarrow> \<exists>fc'. fctx (snd (requestBody_body env fc st)) = Some fc'"
  by (auto simp: requestBody_body_def Let_def InterfaceToValue_nil_def
           split: prod.splits option.splits sum.splits)

lemma requestBody_body_captured:
  assumes "req_Body fc = OrigBody s" and "captured 8192 s"
    and "\<forall>p\<in>set (bufferPool st). length (heap st p) = 8192"
    and "bufferPool_Get env st = (buf, st1)"
    and "ValueFromReader env (stream_content s) = (Inr v, used)"
  shows "requestBody_body env fc st =
           (Inr v,
            st1\<lparr>heap := (heap st1)(buf := stream_content s
                       @ drop (length (stream_content s)) (heap st1 buf)),
                fctx := Some (fc\<lparr>req_Body := BufPoolCloser
                         \<lparr>rd_buf = buf, rd_len = length (stream_content s), rd_i = 0\<rparr> buf\<rparr>)\<rparr>)"
proof -
  from bufferPool_Get_length [OF assms(4,3)] have len: "length (heap st1 buf) = 8192" .
  with assms(2) have "captured (length (heap st1 buf)) s" by simp
  from ReadAtLeast_captured(1) [where h = "heap st1" and b = buf, OF this]
  obtain s' where rd: "ReadAtLeast (heap st1) (OrigBody s) buf 1
           = (length (stream_content s), None, OrigBody s',
              (heap st1)(buf := stream_content s
                 @ drop (length (stream_content s)) (heap st1 buf)))"
    by blast
  show ?thesis
    using assms(1,4,5) rd
    by (simp add: requestBody_body_def Let_def)
qed

lemma Close_funpow:
  "bufferPool (((\<lambda>w. snd (bufPoolCloser_Close b w)) ^^ k) st) = replicate k b @ bufferPool st"
  by (induction k) (simp_all add: bufPoolCloser_Close_def bufferPool_Put_def)

text \<open>
  The error exits of the accessor return without a \<^verbatim>\<open>Put\<close>: the pool is as
  \<^verbatim>\<open>bufferPool.Get\<close> left it.
\<close>

lemma error_exit_puts_nothing:
  assumes "fctx st = Some fc" and "req_Body fc \<noteq> BodyNil" and "req_Body fc \<noteq> NoBody"
    and "requestBodyBuiltin env bc st = (Inl e, st')"
  shows "bufferPool st' = bufferPool (snd (bufferPool_Get env st))"
proof -
  obtain buf st1 where g: "bufferPool_Get env st = (buf, st1)"
    by (metis surj_pair)
  obtain n err r' h' where rd: "ReadAtLeast (heap st1) (req_Body fc) buf 1 = (n, err, r', h')"
    by (metis prod_cases4)
  obtain pv used where p: "ValueFromReader env (take n (h' buf)) = (pv, used)"
    by (metis surj_pair)
  from assms g rd p show ?thesis
    by (cases err; cases pv)
       (auto simp: requestBodyBuiltin_def requestBody_body_def deferred_def Let_def)
qed

text \<open>The equations that evaluate the accessor on the concrete requests.\<close>

lemmas accessor_defs =
  requestBodyBuiltin_def requestBody_body_def deferred_def Let_def
  bufferPool_Get_def newBuffer_def ReadAtLeast_def ReadAtLeast_loop.simps
  InterfaceToValue_nil_def example_collab_def example_world_def example_bctx_def

section \<open>Properties of the request-body accessor\<close>

text \<open>
  Claim C8. With its context attached, the accessor returns the null value, without
  error and without any change of the state, when the request body is nil or
  \<^verbatim>\<open>http.NoBody\<close>. When the body is a stream that holds no byte, it fails with the
  error \<^verbatim>\<open>empty body request\<close>, and the request keeps the stream as its body: no
  replayable body is built.
\<close>

theorem no_body_and_empty_body:
  assumes "fctx st = Some fc"
  shows "(req_Body fc = BodyNil \<or> req_Body fc = NoBody \<longrightarrow>
            requestBodyBuiltin env bc st = (Inr AstNull, st))
         \<and> (\<forall>s. req_Body fc = OrigBody s \<and> stream_content s = [] \<longrightarrow>
              fst (requestBodyBuiltin env bc st) = Inl (ErrorString ''empty body request'')
              \<and> (\<exists>fc' s'. fctx (snd (requestBodyBuiltin env bc st)) = Some fc'
                    \<and> req_Body fc' = OrigBody s' \<and> stream_content s' = []))"
proof (rule conjI)
  show "req_Body fc = BodyNil \<or> req_Body fc = NoBody \<longrightarrow>
          requestBodyBuiltin env bc st = (Inr AstNull, st)"
    using assms
    by (auto simp: requestBodyBuiltin_def requestBody_body_def deferred_def
          InterfaceToValue_nil_def)
next
  show "\<forall>s. req_Body fc = OrigBody s \<and> stream_content s = [] \<longrightarrow>
              fst (requestBodyBuiltin env bc st) = Inl (ErrorString ''empty body request'')
              \<and> (\<exists>fc' s'. fctx (snd (requestBodyBuiltin env bc st)) = Some fc'
                    \<and> req_Body fc' = OrigBody s' \<and> stream_content s' = [])"
  proof (intro allI impI)
  fix s
  assume h: "req_Body fc = OrigBody s \<and> stream_content s = []"
  obtain buf st1 where g: "bufferPool_Get env st = (buf, st1)"
    by (metis surj_pair)
  from h ReadAtLeast_no_bytes [of s "heap st1" buf]
  obtain e s' where rd: "ReadAtLeast (heap st1) (OrigBody s) buf 1
                           = (0, Some e, OrigBody s', heap st1)"
    by blast
  from ReadAtLeast_OrigBody [OF rd] h have "stream_content s' = []" by auto
  with assms h g rd
  show "fst (requestBodyBuiltin env bc st) = Inl (ErrorString ''empty body request'')
          \<and> (\<exists>fc' s'. fctx (snd (requestBodyBuiltin env bc st)) = Some fc'
                \<and> req_Body fc' = OrigBody s' \<and> stream_content s' = [])"
    by (simp add: requestBodyBuiltin_def requestBody_body_def deferred_def Let_def)
  qed
qed

text \<open>Claim C8 at a request without body, a nil body and a stream at its end.\<close>

theorem no_body_and_empty_body_witness:
  "fctx (example_world NoBody) = Some \<lparr>req_Body = NoBody, builtinErr = None\<rparr>
   \<and> requestBodyBuiltin example_collab example_bctx (example_world NoBody)
       = (Inr AstNull, example_world NoBody)
   \<and> requestBodyBuiltin example_collab example_bctx (example_world BodyNil)
       = (Inr AstNull, example_world BodyNil)
   \<and> stream_content (Last [] EOF) = []
   \<and> fst (requestBodyBuiltin example_collab example_bctx (example_world (OrigBody (Last [] EOF))))
       = Inl (ErrorString ''empty body request'')"
proof -
  have h1: "fctx (example_world NoBody) = Some \<lparr>req_Body = NoBody, builtinErr = None\<rparr>"
    by (simp add: example_world_def)
  have h2: "fctx (example_world BodyNil) = Some \<lparr>req_Body = BodyNil, builtinErr = None\<rparr>"
    by (simp add: example_world_def)
  have h3: "fctx (example_world (OrigBody (Last [] EOF)))
              = Some \<lparr>req_Body = OrigBody (Last [] EOF), builtinErr = None\<rparr>"
    by (simp add: example_world_def)
  show ?thesis
    using h1
      no_body_and_empty_body [OF h1, where env = example_collab and bc = example_bctx]
      no_body_and_empty_body [OF h2, where env = example_collab and bc = example_bctx]
      no_body_and_empty_body [OF h3, where env = example_collab and bc = example_bctx]
    by simp
qed

text \<open>
  Claim C10. For a request whose body is a stream: when the accessor fails (the read
  returned no byte, or the bytes read did not parse), the body of the request is
  still that stream, advanced past the bytes that were read, so that the content it
  held is the bytes read followed by what it still holds; the body is a
  \<^verbatim>\<open>bufPoolCloser\<close> only after a call that succeeded.
\<close>

theorem failure_leaves_body_in_place:
  assumes "fctx st = Some fc" and "req_Body fc = OrigBody s"
  shows "case requestBodyBuiltin env bc st of
           (r, st') \<Rightarrow>
             (\<exists>fc'. fctx st' = Some fc'
                \<and> (case r of
                     Inl e \<Rightarrow> (\<exists>s' rd. req_Body fc' = OrigBody s'
                                  \<and> stream_content s = rd @ stream_content s')
                   | Inr v \<Rightarrow> (\<exists>rd buf. req_Body fc' = BufPoolCloser rd buf)))"
proof -
  obtain buf st1 where g: "bufferPool_Get env st = (buf, st1)"
    by (metis surj_pair)
  obtain n err r' h' where rd: "ReadAtLeast (heap st1) (OrigBody s) buf 1 = (n, err, r', h')"
    by (metis prod_cases4)
  from ReadAtLeast_OrigBody [OF rd]
  obtain s' rd' where s': "r' = OrigBody s'" "stream_content s = rd' @ stream_content s'"
    by blast
  obtain pv used where p: "ValueFromReader env (take n (h' buf)) = (pv, used)"
    by (metis surj_pair)
  show ?thesis
    using assms g rd s' p
    by (cases err; cases pv)
       (auto simp: requestBodyBuiltin_def requestBody_body_def deferred_def Let_def)
qed

text \<open>
  Claim C10 at a stream that delivers \<^verbatim>\<open>[\<close> and then \<^verbatim>\<open>]\<close>: the first byte alone does
  not parse, and the request keeps the stream, which still holds the second byte.
\<close>

theorem failure_leaves_body_in_place_witness:
  "fctx (example_world (OrigBody (More [0x5B] (Last [0x5D] EOF))))
     = Some \<lparr>req_Body = OrigBody (More [0x5B] (Last [0x5D] EOF)), builtinErr = None\<rparr>
   \<and> fst (requestBodyBuiltin example_collab example_bctx
            (example_world (OrigBody (More [0x5B] (Last [0x5D] EOF)))))
       = Inl (ErrorString ''invalid character'')
   \<and> map_option req_Body (fctx (snd (requestBodyBuiltin example_collab example_bctx
            (example_world (OrigBody (More [0x5B] (Last [0x5D] EOF)))))))
       = Some (OrigBody (Last [0x5D] EOF))"
proof -
  have h1: "fctx (example_world (OrigBody (More [0x5B] (Last [0x5D] EOF))))
     = Some \<lparr>req_Body = OrigBody (More [0x5B] (Last [0x5D] EOF)), builtinErr = None\<rparr>"
    by (simp add: example_world_def)
  have h2: "req_Body \<lparr>req_Body = OrigBody (More [0x5B] (Last [0x5D] EOF)), builtinErr = None\<rparr>
              = OrigBody (More [0x5B] (Last [0x5D] EOF))"
    by simp
  have e: "fst (requestBodyBuiltin example_collab example_bctx
            (example_world (OrigBody (More [0x5B] (Last [0x5D] EOF)))))
       = Inl (ErrorString ''invalid character'')"
    by (simp add: accessor_defs)
  have b: "map_option req_Body (fctx (snd (requestBodyBuiltin example_collab example_bctx
            (example_world (OrigBody (More [0x5B] (Last [0x5D] EOF)))))))
       = Some (OrigBody (Last [0x5D] EOF))"
    by (simp add: accessor_defs)
  show ?thesis
    using h1 e b
      failure_leaves_body_in_place [OF h1 h2, where env = example_collab and bc = example_bctx]
    by simp
qed

text \<open>
  Claim C3. For a request whose body is a stream that is captured by one read into a
  buffer of 8192 bytes (which makes it non-empty), with every pooled buffer of that
  length as \<^verbatim>\<open>newBuffer\<close> makes them: after a call of the accessor that succeeded,
  reading the body of the request to its end gives exactly the content the stream
  held before the call.
\<close>

theorem body_round_trip:
  assumes "fctx st = Some fc" and "req_Body fc = OrigBody s" and "captured 8192 s"
    and "\<forall>p\<in>set (bufferPool st). length (heap st p) = 8192"
    and "requestBodyBuiltin env bc st = (Inr v, st')"
  shows "stream_content s \<noteq> []
         \<and> (\<exists>fc'. fctx st' = Some fc'
               \<and> body_ReadAll (heap st') (req_Body fc') = stream_content s)"
proof -
  obtain buf st1 where g: "bufferPool_Get env st = (buf, st1)"
    by (metis surj_pair)
  from bufferPool_Get_length [OF g assms(4)] assms(3)
  have c: "captured (length (heap st1 buf)) s" by simp
  from ReadAtLeast_captured(2) [where h = "heap st1" and b = buf, OF c] have ne: "stream_content s \<noteq> []" .
  from ReadAtLeast_captured(1) [where h = "heap st1" and b = buf, OF c]
  obtain s' where rd: "ReadAtLeast (heap st1) (OrigBody s) buf 1
           = (length (stream_content s), None, OrigBody s',
              (heap st1)(buf := stream_content s
                 @ drop (length (stream_content s)) (heap st1 buf)))"
    by blast
  obtain pv used where p: "ValueFromReader env (stream_content s) = (pv, used)"
    by (metis surj_pair)
  have "\<exists>fc'. fctx st' = Some fc'
          \<and> body_ReadAll (heap st') (req_Body fc') = stream_content s"
  proof (cases pv)
    case (Inl e)
    with assms(1,2,5) g rd p have False
      by (simp add: requestBodyBuiltin_def requestBody_body_def deferred_def Let_def)
    then show ?thesis ..
  next
    case (Inr v')
    with p have "ValueFromReader env (stream_content s) = (Inr v', used)" by simp
    from requestBody_body_captured [OF assms(2,3,4) g this] assms(1,5)
    show ?thesis
      by (auto simp: requestBodyBuiltin_def deferred_def)
  qed
  with ne show ?thesis by simp
qed

text \<open>Claim C3 at a stream that delivers the two bytes \<^verbatim>\<open>{}\<close> with its end.\<close>

theorem body_round_trip_witness:
  "captured 8192 (Last [0x7B, 0x7D] EOF)
   \<and> fst (requestBodyBuiltin example_collab example_bctx
            (example_world (OrigBody (Last [0x7B, 0x7D] EOF))))
       = Inr (AstArray [])
   \<and> body_ReadAll
        (heap (snd (requestBodyBuiltin example_collab example_bctx
            (example_world (OrigBody (Last [0x7B, 0x7D] EOF))))))
        (req_Body (the (fctx (snd (requestBodyBuiltin example_collab example_bctx
            (example_world (OrigBody (Last [0x7B, 0x7D] EOF))))))))
       = [0x7B, 0x7D]"
proof -
  define W where "W = example_world (OrigBody (Last [0x7B, 0x7D] EOF))"
  define ST where "ST = snd (requestBodyBuiltin example_collab example_bctx W)"
  have h1: "fctx W = Some \<lparr>req_Body = OrigBody (Last [0x7B, 0x7D] EOF), builtinErr = None\<rparr>"
    by (simp add: W_def example_world_def)
  have h2: "req_Body \<lparr>req_Body = OrigBody (Last [0x7B, 0x7D] EOF), builtinErr = None\<rparr>
              = OrigBody (Last [0x7B, 0x7D] EOF)"
    by simp
  have h3: "captured 8192 (Last [0x7B, 0x7D] EOF)" by simp
  have h4: "\<forall>p\<in>set (bufferPool W). length (heap W p) = 8192"
    by (simp add: W_def example_world_def)
  have e: "fst (requestBodyBuiltin example_collab example_bctx W) = Inr (AstArray [])"
    by (simp add: W_def accessor_defs)
  then have h5: "requestBodyBuiltin example_collab example_bctx W = (Inr (AstArray []), ST)"
    by (simp add: ST_def prod_eq_iff)
  from body_round_trip [OF h1 h2 h3 h4 h5]
  have "body_ReadAll (heap ST) (req_Body (the (fctx ST))) = [0x7B, 0x7D]"
    by auto
  with h3 e show ?thesis
    by (simp add: ST_def W_def)
qed

text \<open>
  Claim C1 fails as stated: closing is not idempotent. After a successful call on a
  body of two bytes the pool is empty and the request holds the buffer at address 0;
  closing that body twice puts the address into the pool twice.
\<close>

theorem double_close_counterexample:
  "fst (requestBodyBuiltin example_collab example_bctx
          (example_world (OrigBody (Last [0x7B, 0x7D] EOF))))
     = Inr (AstArray [])
   \<and> map_option req_Body (fctx (snd (requestBodyBuiltin example_collab example_bctx
          (example_world (OrigBody (Last [0x7B, 0x7D] EOF))))))
     = Some (BufPoolCloser \<lparr>rd_buf = 0, rd_len = 2, rd_i = 0\<rparr> 0)
   \<and> bufferPool (snd (requestBodyBuiltin example_collab example_bctx
          (example_world (OrigBody (Last [0x7B, 0x7D] EOF))))) = []
   \<and> bufferPool (snd (bufPoolCloser_Close 0 (snd (bufPoolCloser_Close 0
        (snd (requestBodyBuiltin example_collab example_bctx
          (example_world (OrigBody (Last [0x7B, 0x7D] EOF))))))))) = [0, 0]"
  by (simp add: accessor_defs bufPoolCloser_Close_def bufferPool_Put_def)

text \<open>
  Claim C1 as amended. On the successful exit of the accessor the buffer taken from
  the pool is owned by the replayable body that the request now holds, and the
  accessor has put nothing into the pool. Every call of \<^verbatim>\<open>Close\<close> on that body puts
  the buffer into the pool once: \<open>k\<close> calls add it \<open>k\<close> times, so it is released
  exactly once when the body is closed exactly once.
\<close>

theorem buffer_released_once_per_close:
  assumes "fctx st = Some fc" and "req_Body fc \<noteq> BodyNil" and "req_Body fc \<noteq> NoBody"
    and "requestBodyBuiltin env bc st = (Inr v, st')"
  shows "\<exists>rd. map_option req_Body (fctx st')
                 = Some (BufPoolCloser rd (fst (bufferPool_Get env st)))
           \<and> bufferPool st' = bufferPool (snd (bufferPool_Get env st))
           \<and> (\<forall>k. bufferPool (((\<lambda>w. snd (bufPoolCloser_Close
                        (fst (bufferPool_Get env st)) w)) ^^ k) st')
                   = replicate k (fst (bufferPool_Get env st)) @ bufferPool st')"
proof -
  obtain buf st1 where g: "bufferPool_Get env st = (buf, st1)"
    by (metis surj_pair)
  obtain n err r' h' where rd: "ReadAtLeast (heap st1) (req_Body fc) buf 1 = (n, err, r', h')"
    by (metis prod_cases4)
  obtain pv used where p: "ValueFromReader env (take n (h' buf)) = (pv, used)"
    by (metis surj_pair)
  from assms g rd p
  have "\<exists>rd. map_option req_Body (fctx st') = Some (BufPoolCloser rd buf)
          \<and> bufferPool st' = bufferPool st1"
    by (cases err; cases pv)
       (auto simp: requestBodyBuiltin_def requestBody_body_def deferred_def Let_def)
  with g show ?thesis by (simp add: Close_funpow)
qed

text \<open>Claim C1 as amended, at a body of two bytes closed once.\<close>

theorem buffer_released_once_per_close_witness:
  "fst (requestBodyBuiltin example_collab example_bctx
          (example_world (OrigBody (Last [0x7B, 0x7D] EOF))))
     = Inr (AstArray [])
   \<and> fst (bufferPool_Get example_collab (example_world (OrigBody (Last [0x7B, 0x7D] EOF)))) = 0
   \<and> bufferPool (snd (bufPoolCloser_Close 0
        (snd (requestBodyBuiltin example_collab example_bctx
          (example_world (OrigBody (Last [0x7B, 0x7D] EOF))))))) = [0]"
proof -
  define W where "W = example_world (OrigBody (Last [0x7B, 0x7D] EOF))"
  define ST where "ST = snd (requestBodyBuiltin example_collab example_bctx W)"
  have h1: "fctx W = Some \<lparr>req_Body = OrigBody (Last [0x7B, 0x7D] EOF), builtinErr = None\<rparr>"
    by (simp add: W_def example_world_def)
  have h2: "req_Body \<lparr>req_Body = OrigBody (Last [0x7B, 0x7D] EOF), builtinErr = None\<rparr>
              \<noteq> BodyNil"
    by simp
  have h3: "req_Body \<lparr>req_Body = OrigBody (Last [0x7B, 0x7D] EOF), builtinErr = None\<rparr>
              \<noteq> NoBody"
    by simp
  have e: "fst (requestBodyBuiltin example_collab example_bctx W) = Inr (AstArray [])"
    by (simp add: W_def accessor_defs)
  then have h4: "requestBodyBuiltin example_collab example_bctx W = (Inr (AstArray []), ST)"
    by (simp add: ST_def prod_eq_iff)
  have g: "fst (bufferPool_Get example_collab W) = 0"
    "bufferPool (snd (bufferPool_Get example_collab W)) = []"
    by (simp_all add: W_def accessor_defs)
  from buffer_released_once_per_close [OF h1 h2 h3 h4] g
  have p: "bufferPool ST = []"
    and k: "\<forall>k. bufferPool (((\<lambda>w. snd (bufPoolCloser_Close 0 w)) ^^ k) ST)
              = replicate k 0 @ bufferPool ST"
    by auto
  from k [rule_format, of "Suc 0"] p have "bufferPool (snd (bufPoolCloser_Close 0 ST)) = [0]"
    by simp
  with e g show ?thesis
    by (simp add: ST_def W_def)
qed

section \<open>The error protocol of both functions\<close>

text \<open>
  Claim C2 fails as stated: when no context is attached, both functions return the
  error \<^verbatim>\<open>bad context\<close> and cancel, and no error slot holds anything, since the
  slot is a field of the context that is missing.
\<close>

theorem missing_context_counterexample:
  "ociBlobDigestBuiltin example_collab example_bctx
       (AstString ''alpine:v1'') (AstString ''text/b'') example_world_nocontext
     = (Inl (ErrorString ''bad context''), example_world_nocontext\<lparr>Cancel := True\<rparr>)
   \<and> requestBodyBuiltin example_collab example_bctx example_world_nocontext
     = (Inl (ErrorString ''bad context''), example_world_nocontext\<lparr>Cancel := True\<rparr>)
   \<and> fctx (example_world_nocontext\<lparr>Cancel := True\<rparr>) = None"
  by (simp add: ociBlobDigestBuiltin_def requestBodyBuiltin_def example_world_nocontext_def)

text \<open>
  Claim C2 as amended. Whenever one of the two functions returns an error, the
  evaluation has been cancelled. When the context is attached, its error slot then
  holds the error wrapped with the location and the name of the function; when the
  context is missing, the error is \<^verbatim>\<open>bad context\<close> and no slot is written.
\<close>

theorem fatal_error_protocol:
  "(ociBlobDigestBuiltin env bc a b st = (Inl e, st') \<longrightarrow>
      Cancel st'
      \<and> (case fctx st of
           None \<Rightarrow> e = ErrorString ''bad context'' \<and> fctx st' = None
         | Some fc \<Rightarrow>
             fctx st' = Some (fc\<lparr>builtinErr := Some (WrapError
                 (Location bc @ '' builtin eval oci.blob_digest error: '') e)\<rparr>)))
   \<and> (requestBodyBuiltin env bc st = (Inl e, st') \<longrightarrow>
      Cancel st'
      \<and> (case fctx st of
           None \<Rightarrow> e = ErrorString ''bad context'' \<and> fctx st' = None
         | Some fc \<Rightarrow>
             (\<exists>fc'. fctx st' = Some fc'
                \<and> builtinErr fc' = Some (WrapError
                     (Location bc @ '' builtin eval request.body error: '') e))))"
proof (intro conjI impI)
  assume r: "ociBlobDigestBuiltin env bc a b st = (Inl e, st')"
  obtain r1 st1 where b: "ociBlobDigest_body env a b st = (r1, st1)"
    by (metis surj_pair)
  with ociBlobDigest_body_fctx [of env a b st] have f: "fctx st1 = fctx st" by simp
  from r b f show "Cancel st'"
    by (cases r1) (auto simp: ociBlobDigestBuiltin_def deferred_def split: option.splits)
  from r b f show "case fctx st of
           None \<Rightarrow> e = ErrorString ''bad context'' \<and> fctx st' = None
         | Some fc \<Rightarrow>
             fctx st' = Some (fc\<lparr>builtinErr := Some (WrapError
                 (Location bc @ '' builtin eval oci.blob_digest error: '') e)\<rparr>)"
    by (cases r1) (auto simp: ociBlobDigestBuiltin_def deferred_def split: option.splits)
next
  assume r: "requestBodyBuiltin env bc st = (Inl e, st')"
  show "Cancel st'"
    using r by (auto simp: requestBodyBuiltin_def deferred_def split: option.splits prod.splits sum.splits)
  show "case fctx st of
           None \<Rightarrow> e = ErrorString ''bad context'' \<and> fctx st' = None
         | Some fc \<Rightarrow>
             (\<exists>fc'. fctx st' = Some fc'
                \<and> builtinErr fc' = Some (WrapError
                     (Location bc @ '' builtin eval request.body error: '') e))"
  proof (cases "fctx st")
    case None
    with r show ?thesis by (auto simp: requestBodyBuiltin_def)
  next
    case (Some fc)
    obtain r1 st1 where b: "requestBody_body env fc st = (r1, st1)"
      by (metis surj_pair)
    with requestBody_body_fctx [OF Some, of env] obtain fc1 where "fctx st1 = Some fc1"
      by auto
    with r b Some show ?thesis
      by (cases r1) (auto simp: requestBodyBuiltin_def deferred_def)
  qed
qed

text \<open>
  Claim C2 as amended, at a reference without colon for the resolver and at a
  stream without bytes for the accessor.
\<close>

theorem fatal_error_protocol_witness:
  "fst (ociBlobDigestBuiltin example_collab example_bctx
          (AstString ''library/alpine'') (AstString ''text/b'') (example_world NoBody))
     = Inl (ErrorString ''reference without tag'')
   \<and> Cancel (snd (ociBlobDigestBuiltin example_collab example_bctx
          (AstString ''library/alpine'') (AstString ''text/b'') (example_world NoBody)))
   \<and> map_option builtinErr (fctx (snd (ociBlobDigestBuiltin example_collab example_bctx
          (AstString ''library/alpine'') (AstString ''text/b'') (example_world NoBody))))
     = Some (Some (WrapError ''policy.rego:3 builtin eval oci.blob_digest error: ''
          (ErrorString ''reference without tag'')))
   \<and> fst (requestBodyBuiltin example_collab example_bctx
          (example_world (OrigBody (Last [] EOF))))
     = Inl (ErrorString ''empty body request'')
   \<and> Cancel (snd (requestBodyBuiltin example_collab example_bctx
          (example_world (OrigBody (Last [] EOF)))))
   \<and> map_option builtinErr (fctx (snd (requestBodyBuiltin example_collab example_bctx
          (example_world (OrigBody (Last [] EOF))))))
     = Some (Some (WrapError ''policy.rego:3 builtin eval request.body error: ''
          (ErrorString ''empty body request'')))"
proof -
  define S1 where "S1 = snd (ociBlobDigestBuiltin example_collab example_bctx
          (AstString ''library/alpine'') (AstString ''text/b'') (example_world NoBody))"
  define S2 where "S2 = snd (requestBodyBuiltin example_collab example_bctx
          (example_world (OrigBody (Last [] EOF))))"
  have i: "LastIndexByte ''library/alpine'' CHR '':'' = - 1"
    by (rule LastIndexByte_absent) simp
  have e1: "fst (ociBlobDigestBuiltin example_collab example_bctx
          (AstString ''library/alpine'') (AstString ''text/b'') (example_world NoBody))
     = Inl (ErrorString ''reference without tag'')"
    using i by (simp add: ociBlobDigestBuiltin_def ociBlobDigest_body_def deferred_def
        Let_def example_world_def)
  then have r1: "ociBlobDigestBuiltin example_collab example_bctx
          (AstString ''library/alpine'') (AstString ''text/b'') (example_world NoBody)
     = (Inl (ErrorString ''reference without tag''), S1)"
    by (simp add: S1_def prod_eq_iff)
  have e2: "fst (requestBodyBuiltin example_collab example_bctx
          (example_world (OrigBody (Last [] EOF))))
     = Inl (ErrorString ''empty body request'')"
    by (simp add: accessor_defs)
  then have r2: "requestBodyBuiltin example_collab example_bctx
          (example_world (OrigBody (Last [] EOF)))
     = (Inl (ErrorString ''empty body request''), S2)"
    by (simp add: S2_def prod_eq_iff)
  have f: "fctx (example_world NoBody) = Some \<lparr>req_Body = NoBody, builtinErr = None\<rparr>"
    "fctx (example_world (OrigBody (Last [] EOF)))
       = Some \<lparr>req_Body = OrigBody (Last [] EOF), builtinErr = None\<rparr>"
    by (simp_all add: example_world_def)
  from fatal_error_protocol [where env = example_collab and bc = example_bctx
      and a = "AstString ''library/alpine''" and b = "AstString ''text/b''"
      and st = "example_world NoBody" and e = "ErrorString ''reference without tag''"
      and st' = S1] r1 f
  have c1: "Cancel S1 \<and> map_option builtinErr (fctx S1)
     = Some (Some (WrapError ''policy.rego:3 builtin eval oci.blob_digest error: ''
          (ErrorString ''reference without tag'')))"
    by (simp add: example_bctx_def)
  from fatal_error_protocol [where env = example_collab and bc = example_bctx
      and st = "example_world (OrigBody (Last [] EOF))"
      and e = "ErrorString ''empty body request''" and st' = S2] r2 f
  have c2: "Cancel S2 \<and> map_option builtinErr (fctx S2)
     = Some (Some (WrapError ''policy.rego:3 builtin eval request.body error: ''
          (ErrorString ''empty body request'')))"
    by (auto simp: example_bctx_def)
  from e1 e2 c1 c2 show ?thesis
    by (simp add: S1_def S2_def)
qed

end
